theory Spec2Isabelle
  imports Complex_Main "HOL-Library.AList"
begin

section \<open>The fraud-detection serving wrapper (app.py)\<close>

text \<open>
  The module keeps three globals (\<open>model\<close>, \<open>preprocessor\<close>, \<open>RESOURCES_LOADED\<close>),
  fills them once in \<open>load_resources\<close>, and serves two routes: \<open>home\<close> and
  \<open>predict\<close>. Everything the handlers call in pandas, scikit-learn, joblib and
  Flask is opaque to the module, so the embedding takes those calls as parameters and
  keeps the control flow, the exception handling and the data that is passed around.
\<close>

subsection \<open>Python values and exceptions\<close>

text \<open>
  The values that \<open>request.get_json\<close> can produce, which are also the cells of the data
  frame and the elements of the arrays the classifier returns. Floats are an abstract
  type \<open>'f\<close>: nothing below depends on their arithmetic. A dict is an association list
  in insertion order, read with \<open>map_of\<close> and written with \<open>AList.update\<close>.
\<close>

datatype 'f pyval =
    PNone
  | PBool bool
  | PInt int
  | PFloat 'f
  | PStr string
  | PList "'f pyval list"
  | PDict "(string \<times> 'f pyval) list"

text \<open>
  Exceptions, by class; all of them are subclasses of \<open>Exception\<close>. \<open>KeyError\<close>
  carries the missing key, \<open>OtherException\<close> a library's message.
\<close>

datatype exn =
    ValueError
  | TypeError
  | KeyError string
  | OverflowError
  | IndexError
  | AttributeError
  | BadRequest
  | OtherException string

text \<open>
  The builtins whose result depends on the float format or on the interpreter:
  \<open>float(str)\<close> (\<open>None\<close> is ValueError), \<open>float(int)\<close> (\<open>None\<close> is OverflowError),
  \<open>int(float)\<close>, \<open>int(str)\<close> (\<open>None\<close> is ValueError) and \<open>str(e)\<close> of an exception.
\<close>

record 'f pylib =
  float_of_str :: "string \<Rightarrow> 'f option"
  float_of_int :: "int \<Rightarrow> 'f option"
  int_of_float :: "'f \<Rightarrow> exn + int"
  int_of_str :: "string \<Rightarrow> int option"
  exn_str :: "exn \<Rightarrow> string"

definition bind_exn :: "exn + 'a \<Rightarrow> ('a \<Rightarrow> exn + 'b) \<Rightarrow> exn + 'b" where
  "bind_exn r f = (case r of Inl e \<Rightarrow> Inl e | Inr a \<Rightarrow> f a)"

text \<open>\<open>float(v)\<close>: a bool is an int; None, a list and a dict raise TypeError.\<close>

fun py_float :: "'f pylib \<Rightarrow> 'f pyval \<Rightarrow> exn + 'f" where
  "py_float lib (PFloat f) = Inr f"
| "py_float lib (PInt i) =
     (case float_of_int lib i of None \<Rightarrow> Inl OverflowError | Some f \<Rightarrow> Inr f)"
| "py_float lib (PBool b) =
     (case float_of_int lib (if b then 1 else 0) of None \<Rightarrow> Inl OverflowError | Some f \<Rightarrow> Inr f)"
| "py_float lib (PStr s) =
     (case float_of_str lib s of None \<Rightarrow> Inl ValueError | Some f \<Rightarrow> Inr f)"
| "py_float lib PNone = Inl TypeError"
| "py_float lib (PList xs) = Inl TypeError"
| "py_float lib (PDict kvs) = Inl TypeError"

text \<open>\<open>int(v)\<close>.\<close>

fun py_int :: "'f pylib \<Rightarrow> 'f pyval \<Rightarrow> exn + int" where
  "py_int lib (PInt i) = Inr i"
| "py_int lib (PBool b) = Inr (if b then 1 else 0)"
| "py_int lib (PFloat f) = int_of_float lib f"
| "py_int lib (PStr s) =
     (case int_of_str lib s of None \<Rightarrow> Inl ValueError | Some i \<Rightarrow> Inr i)"
| "py_int lib PNone = Inl TypeError"
| "py_int lib (PList xs) = Inl TypeError"
| "py_int lib (PDict kvs) = Inl TypeError"

text \<open>
  \<open>data[k]\<close> with a string key: KeyError on a dict without the key, TypeError on every
  value that is not a dict.
\<close>

fun py_getitem :: "'f pyval \<Rightarrow> string \<Rightarrow> exn + 'f pyval" where
  "py_getitem (PDict kvs) k =
     (case map_of kvs k of None \<Rightarrow> Inl (KeyError k) | Some v \<Rightarrow> Inr v)"
| "py_getitem v k = Inl TypeError"

text \<open>\<open>data[k] = v\<close>: the key keeps its place in the dict, a new key goes last.\<close>

fun py_setitem :: "'f pyval \<Rightarrow> string \<Rightarrow> 'f pyval \<Rightarrow> exn + 'f pyval" where
  "py_setitem (PDict kvs) k v = Inr (PDict (AList.update k v kvs))"
| "py_setitem d k v = Inl TypeError"

text \<open>\<open>a[0]\<close> on a one-dimensional array and \<open>a[0, 1]\<close> on a two-dimensional one.\<close>

fun getitem_0 :: "'a list \<Rightarrow> exn + 'a" where
  "getitem_0 [] = Inl IndexError"
| "getitem_0 (x # xs) = Inr x"

fun getitem_0_1 :: "'a list list \<Rightarrow> exn + 'a" where
  "getitem_0_1 [] = Inl IndexError"
| "getitem_0_1 ([] # rows) = Inl IndexError"
| "getitem_0_1 ([x] # rows) = Inl IndexError"
| "getitem_0_1 ((x # y # ys) # rows) = Inr y"

subsection \<open>The loaded artifacts and the server state\<close>

text \<open>
  A data frame built from a list of dicts: its rows, each an ordered list of
  (column, cell). An artifact loaded by joblib is known to the module only through
  the three methods it calls on it; a method the object lacks raises AttributeError.
  \<open>'x\<close> is the type of the transformed features.
\<close>

type_synonym 'f dataframe = "(string \<times> 'f pyval) list list"

record ('f, 'x) pyobj =
  obj_transform :: "'f dataframe \<Rightarrow> exn + 'x"
  obj_predict :: "'x \<Rightarrow> exn + 'f pyval list"
  obj_predict_proba :: "'x \<Rightarrow> exn + 'f pyval list list"

text \<open>The module's globals; \<open>None\<close> is Python's None.\<close>

record ('f, 'x) globals =
  model :: "('f, 'x) pyobj option"
  preprocessor :: "('f, 'x) pyobj option"
  RESOURCES_LOADED :: bool

definition init_globals :: "('f, 'x) globals" where
  "init_globals = \<lparr>model = None, preprocessor = None, RESOURCES_LOADED = False\<rparr>"

definition PREPROCESSOR_PATH :: string where
  "PREPROCESSOR_PATH = ''preprocessor (1).joblib''"

definition MODEL_PATH :: string where
  "MODEL_PATH = ''smote_xgboost_model (1).joblib''"

text \<open>
  \<open>load_resources\<close>: \<open>joblib_load\<close> is \<open>joblib.load\<close> on the files present at startup;
  it raises or returns the unpickled object, which may be None. The assignments made
  before an exception stay. The messages it prints are not part of the state.
\<close>

definition load_resources ::
  "(string \<Rightarrow> exn + ('f, 'x) pyobj option) \<Rightarrow> ('f, 'x) globals \<Rightarrow> ('f, 'x) globals" where
  "load_resources joblib_load g =
     (case joblib_load PREPROCESSOR_PATH of
        Inl e \<Rightarrow> g\<lparr>RESOURCES_LOADED := False\<rparr>
      | Inr p \<Rightarrow>
          (let g1 = g\<lparr>preprocessor := p\<rparr> in
           case joblib_load MODEL_PATH of
             Inl e \<Rightarrow> g1\<lparr>RESOURCES_LOADED := False\<rparr>
           | Inr m \<Rightarrow> g1\<lparr>model := m, RESOURCES_LOADED := True\<rparr>))"

subsection \<open>The home route\<close>

text \<open>
  The page is either the \<open>error.html\<close> template rendered with a message or the form,
  a constant text. A handler returns its response and the globals it leaves behind.
\<close>

datatype page = Template string string | FormPage

definition home :: "('f, 'x) globals \<Rightarrow> page \<times> ('f, 'x) globals" where
  "home g =
     (if \<not> RESOURCES_LOADED g
      then (Template ''error.html'' ''Server Error: Model failed to load. Please check logs.'', g)
      else (FormPage, g))"

subsection \<open>The predict route\<close>

text \<open>
  A response is the dict given to \<open>jsonify\<close> and the status code. The request is known
  through \<open>request.get_json(force=True)\<close>, which raises BadRequest on a body that is
  not JSON. The calls into the artifacts are logged in the order they are made.
\<close>

record 'f response =
  body :: "(string \<times> 'f pyval) list"
  status :: nat

record 'f request =
  get_json :: "exn + 'f pyval"

datatype ('f, 'x) call =
    Transform "'f dataframe"
  | Predict 'x
  | PredictProba 'x

definition jsonify :: "(string \<times> 'f pyval) list \<Rightarrow> nat \<Rightarrow> 'f response" where
  "jsonify d code = \<lparr>body = d, status = code\<rparr>"

definition not_loaded_response :: "'f response" where
  "not_loaded_response =
     jsonify [(''error'', PStr ''Model resources not fully loaded on server.'')] 500"

definition invalid_amount_response :: "'f response" where
  "invalid_amount_response =
     jsonify [(''error'', PStr ''Invalid format for Transaction Amount. Must be a number.'')] 400"

definition success_response :: "int \<Rightarrow> 'f \<Rightarrow> 'f response" where
  "success_response i f = jsonify [(''prediction'', PInt i), (''probability'', PFloat f)] 200"

definition exception_response :: "'f pylib \<Rightarrow> exn \<Rightarrow> 'f response" where
  "exception_response lib e =
     jsonify [(''error'', PStr (''An error occurred during prediction: '' @ exn_str lib e))] 500"

text \<open>\<open>data['amount'] = float(data['amount'])\<close>: read, convert, write back.\<close>

definition coerce_amount :: "'f pylib \<Rightarrow> 'f pyval \<Rightarrow> exn + 'f pyval" where
  "coerce_amount lib data =
     bind_exn (py_getitem data ''amount'') (\<lambda>v.
     bind_exn (py_float lib v) (\<lambda>a.
     py_setitem data ''amount'' (PFloat a)))"

text \<open>The one-row frame; the six reads happen in this order.\<close>

definition input_data :: "'f pyval \<Rightarrow> exn + 'f dataframe" where
  "input_data data =
     bind_exn (py_getitem data ''amount'') (\<lambda>amount.
     bind_exn (py_getitem data ''state'') (\<lambda>state.
     bind_exn (py_getitem data ''card_type'') (\<lambda>card_type.
     bind_exn (py_getitem data ''bank'') (\<lambda>bank.
     bind_exn (py_getitem data ''category'') (\<lambda>category.
     bind_exn (py_getitem data ''location'') (\<lambda>location.
     Inr [[(''Transaction Amount (INR)'', amount),
           (''State'', state),
           (''Card Type'', card_type),
           (''Bank'', bank),
           (''Transaction Category'', category),
           (''Merchant Location'', location)]]))))))"

text \<open>
  Transform, predict, predict_proba and the reply: the result or the exception, and
  the calls made up to there. The two globals are read where they are used; a method
  of None raises AttributeError.
\<close>

definition run_model ::
  "'f pylib \<Rightarrow> ('f, 'x) globals \<Rightarrow> 'f dataframe
     \<Rightarrow> (exn + 'f response) \<times> ('f, 'x) call list" where
  "run_model lib g df =
     (case preprocessor g of
        None \<Rightarrow> (Inl AttributeError, [])
      | Some p \<Rightarrow>
          (case obj_transform p df of
             Inl e \<Rightarrow> (Inl e, [Transform df])
           | Inr X_processed \<Rightarrow>
               (case model g of
                  None \<Rightarrow> (Inl AttributeError, [Transform df])
                | Some m \<Rightarrow>
                    (case bind_exn (obj_predict m X_processed) getitem_0 of
                       Inl e \<Rightarrow> (Inl e, [Transform df, Predict X_processed])
                     | Inr prediction \<Rightarrow>
                         (bind_exn (obj_predict_proba m X_processed) (\<lambda>probs.
                          bind_exn (getitem_0_1 probs) (\<lambda>prediction_proba.
                          bind_exn (py_int lib prediction) (\<lambda>i.
                          bind_exn (py_float lib prediction_proba) (\<lambda>f.
                          Inr (success_response i f))))),
                          [Transform df, Predict X_processed, PredictProba X_processed])))))"

text \<open>The body of the outer \<open>try\<close>; the inner \<open>try\<close> catches ValueError only.\<close>

definition predict_try ::
  "'f pylib \<Rightarrow> ('f, 'x) globals \<Rightarrow> 'f request
     \<Rightarrow> (exn + 'f response) \<times> ('f, 'x) call list" where
  "predict_try lib g req =
     (case get_json req of
        Inl e \<Rightarrow> (Inl e, [])
      | Inr data \<Rightarrow>
          (case coerce_amount lib data of
             Inl e \<Rightarrow>
               (if e = ValueError then (Inr invalid_amount_response, []) else (Inl e, []))
           | Inr data' \<Rightarrow>
               (case input_data data' of
                  Inl e \<Rightarrow> (Inl e, [])
                | Inr df \<Rightarrow> run_model lib g df)))"

text \<open>
  The handler: the response, the globals afterwards, and the calls made. The outer
  \<open>except Exception\<close> turns every exception of the \<open>try\<close> block into a 500 reply.
\<close>

definition predict ::
  "'f pylib \<Rightarrow> ('f, 'x) globals \<Rightarrow> 'f request
     \<Rightarrow> 'f response \<times> ('f, 'x) globals \<times> ('f, 'x) call list" where
  "predict lib g req =
     (if \<not> RESOURCES_LOADED g \<or> model g = None \<or> preprocessor g = None
      then (not_loaded_response, g, [])
      else
        (case predict_try lib g req of
           (Inr resp, calls) \<Rightarrow> (resp, g, calls)
         | (Inl e, calls) \<Rightarrow> (exception_response lib e, g, calls)))"

text \<open>Projections of a handler's result.\<close>

abbreviation response_of :: "'a \<times> 'b \<times> 'c \<Rightarrow> 'a" where
  "response_of r \<equiv> fst r"

abbreviation globals_of :: "'a \<times> 'b \<times> 'c \<Rightarrow> 'b" where
  "globals_of r \<equiv> fst (snd r)"

abbreviation calls_of :: "'a \<times> 'b \<times> 'c \<Rightarrow> 'c" where
  "calls_of r \<equiv> snd (snd r)"

subsection \<open>A concrete server\<close>

text \<open>
  An instance to evaluate the handlers on: floats as rationals, one artifact that
  answers all three methods (the features are the number of rows), both files
  holding it, and a request as the form of the home page sends it.
\<close>

definition sample_lib :: "rat pylib" where
  "sample_lib =
     \<lparr>float_of_str = (\<lambda>s. if s = ''2500.50'' then Some (5001 / 2) else None),
      float_of_int = (\<lambda>i. Some (of_int i)),
      int_of_float = (\<lambda>f. Inr (if 0 \<le> f then \<lfloor>f\<rfloor> else \<lceil>f\<rceil>)),
      int_of_str = (\<lambda>s. None),
      exn_str = (\<lambda>e. case e of KeyError k \<Rightarrow> k | OtherException msg \<Rightarrow> msg | _ \<Rightarrow> ''error'')\<rparr>"

definition sample_artifact :: "(rat, nat) pyobj" where
  "sample_artifact =
     \<lparr>obj_transform = (\<lambda>df. Inr (length df)),
      obj_predict = (\<lambda>X. Inr (replicate X (PInt 1))),
      obj_predict_proba = (\<lambda>X. Inr (replicate X [PFloat (1 / 10), PFloat (9 / 10)]))\<rparr>"

definition sample_joblib :: "string \<Rightarrow> exn + (rat, nat) pyobj option" where
  "sample_joblib path = Inr (Some sample_artifact)"

definition sample_globals :: "(rat, nat) globals" where
  "sample_globals = load_resources sample_joblib init_globals"

definition sample_fields :: "(string \<times> rat pyval) list" where
  "sample_fields =
     [(''amount'', PStr ''2500.50''), (''state'', PStr ''Karnataka''),
      (''card_type'', PStr ''Visa''), (''bank'', PStr ''HDFC''),
      (''category'', PStr ''Retail''), (''location'', PStr ''Bangalore'')]"

definition sample_request :: "rat request" where
  "sample_request = \<lparr>get_json = Inr (PDict sample_fields)\<rparr>"

definition sample_record :: "rat dataframe" where
  "sample_record =
     [[(''Transaction Amount (INR)'', PFloat (5001 / 2)), (''State'', PStr ''Karnataka''),
       (''Card Type'', PStr ''Visa''), (''Bank'', PStr ''HDFC''),
       (''Transaction Category'', PStr ''Retail''), (''Merchant Location'', PStr ''Bangalore'')]]"

text \<open>
  Further requests: an amount that is not a number, a body with nothing but such an
  amount, a null amount, and a body without 'state'. Further startups: a model file
  that holds None, and a model file that fails to load.
\<close>

definition invalid_amount_request :: "rat request" where
  "invalid_amount_request =
     \<lparr>get_json = Inr (PDict (AList.update ''amount'' (PStr ''abc'') sample_fields))\<rparr>"

definition amount_only_request :: "rat request" where
  "amount_only_request = \<lparr>get_json = Inr (PDict [(''amount'', PStr ''abc'')])\<rparr>"

definition null_amount_request :: "rat request" where
  "null_amount_request =
     \<lparr>get_json = Inr (PDict (AList.update ''amount'' PNone sample_fields))\<rparr>"

definition no_state_request :: "rat request" where
  "no_state_request =
     \<lparr>get_json = Inr (PDict (AList.delete ''state'' sample_fields))\<rparr>"

definition none_joblib :: "string \<Rightarrow> exn + (rat, nat) pyobj option" where
  "none_joblib path = (if path = MODEL_PATH then Inr None else Inr (Some sample_artifact))"

definition broken_joblib :: "string \<Rightarrow> exn + (rat, nat) pyobj option" where
  "broken_joblib path =
     (if path = MODEL_PATH then Inl (OtherException ''version conflict'')
      else Inr (Some sample_artifact))"

section \<open>Properties\<close>

subsection \<open>Auxiliary facts\<close>

lemma bind_exn_simps [simp]:
  "bind_exn (Inl e) f = Inl e"
  "bind_exn (Inr a) f = f a"
  by (simp_all add: bind_exn_def)

lemma bind_exn_Inr_iff: "bind_exn r f = Inr b \<longleftrightarrow> (\<exists>a. r = Inr a \<and> f a = Inr b)"
  by (cases r) simp_all

lemma py_getitem_Inr_iff:
  "py_getitem data k = Inr v \<longleftrightarrow> (\<exists>d. data = PDict d \<and> map_of d k = Some v)"
  by (cases data) (auto split: option.splits)

lemma py_float_ValueError_iff:
  "py_float lib v = Inl ValueError \<longleftrightarrow> (\<exists>s. v = PStr s \<and> float_of_str lib s = None)"
  by (cases v) (auto split: option.splits)

lemma coerce_amount_Inr_iff:
  "coerce_amount lib data = Inr data' \<longleftrightarrow>
     (\<exists>d v a. data = PDict d \<and> map_of d ''amount'' = Some v \<and> py_float lib v = Inr a \<and>
        data' = PDict (AList.update ''amount'' (PFloat a) d))"
  unfolding coerce_amount_def
  by (cases data) (auto simp: bind_exn_Inr_iff split: option.splits)

lemma coerce_amount_ValueError_iff:
  "coerce_amount lib data = Inl ValueError \<longleftrightarrow>
     (\<exists>v. py_getitem data ''amount'' = Inr v \<and> py_float lib v = Inl ValueError)"
  unfolding coerce_amount_def
  by (cases data; cases "py_getitem data ''amount''"; cases "py_float lib (projr (py_getitem data ''amount''))")
     (auto split: option.splits)

lemma input_data_Inr_iff:
  "input_data data = Inr df \<longleftrightarrow>
     (\<exists>amount state card_type bank category location.
        py_getitem data ''amount'' = Inr amount \<and>
        py_getitem data ''state'' = Inr state \<and>
        py_getitem data ''card_type'' = Inr card_type \<and>
        py_getitem data ''bank'' = Inr bank \<and>
        py_getitem data ''category'' = Inr category \<and>
        py_getitem data ''location'' = Inr location \<and>
        df = [[(''Transaction Amount (INR)'', amount), (''State'', state),
               (''Card Type'', card_type), (''Bank'', bank),
               (''Transaction Category'', category), (''Merchant Location'', location)]])"
  unfolding input_data_def by (auto simp: bind_exn_Inr_iff)

lemma predict_loaded:
  "RESOURCES_LOADED g \<Longrightarrow> model g = Some m \<Longrightarrow> preprocessor g = Some p \<Longrightarrow>
   predict lib g req =
     (case predict_try lib g req of
        (Inr resp, calls) \<Rightarrow> (resp, g, calls)
      | (Inl e, calls) \<Rightarrow> (exception_response lib e, g, calls))"
  by (simp add: predict_def)

lemma predict_not_loaded:
  "\<not> RESOURCES_LOADED g \<or> model g = None \<or> preprocessor g = None \<Longrightarrow>
   predict lib g req = (not_loaded_response, g, [])"
  by (simp add: predict_def)

lemma getitem_update_amount:
  "py_getitem (PDict (AList.update ''amount'' x d)) ''amount'' = Inr x"
  by (simp add: update_conv')

lemma getitem_update_other:
  "k \<noteq> ''amount'' \<Longrightarrow>
   py_getitem (PDict (AList.update ''amount'' x d)) k = py_getitem (PDict d) k"
  by (simp add: update_conv')

lemma run_model_calls:
  "Transform df' \<in> set (snd (run_model lib g df)) \<Longrightarrow> df' = df"
  unfolding run_model_def by (auto split: sum.splits option.splits)

lemma predict_try_Transform:
  assumes "Transform df \<in> set (snd (predict_try lib g req))"
  shows "\<exists>data data'. get_json req = Inr data \<and> coerce_amount lib data = Inr data' \<and>
           input_data data' = Inr df"
  using assms unfolding predict_try_def
  by (auto split: sum.splits if_splits dest: run_model_calls)

lemma predict_Transform:
  assumes "Transform df \<in> set (calls_of (predict lib g req))"
  shows "\<exists>data data'. get_json req = Inr data \<and> coerce_amount lib data = Inr data' \<and>
           input_data data' = Inr df"
proof (cases "\<not> RESOURCES_LOADED g \<or> model g = None \<or> preprocessor g = None")
  case True
  then have "predict lib g req = (not_loaded_response, g, [])" by (rule predict_not_loaded)
  with assms show ?thesis by simp
next
  case False
  then obtain m p where mp: "RESOURCES_LOADED g" "model g = Some m" "preprocessor g = Some p"
    by auto
  have "calls_of (predict lib g req) = snd (predict_try lib g req)"
    unfolding predict_loaded [OF mp] by (simp split: prod.splits sum.splits)
  with assms have "Transform df \<in> set (snd (predict_try lib g req))" by simp
  then show ?thesis by (rule predict_try_Transform)
qed

lemma record_from_request:
  assumes "get_json req = Inr data" and "coerce_amount lib data = Inr data'"
      and "input_data data' = Inr df"
  shows "\<exists>v amount state card_type bank category location.
           py_getitem data ''amount'' = Inr v \<and> py_float lib v = Inr amount \<and>
           py_getitem data ''state'' = Inr state \<and>
           py_getitem data ''card_type'' = Inr card_type \<and>
           py_getitem data ''bank'' = Inr bank \<and>
           py_getitem data ''category'' = Inr category \<and>
           py_getitem data ''location'' = Inr location \<and>
           df = [[(''Transaction Amount (INR)'', PFloat amount), (''State'', state),
                  (''Card Type'', card_type), (''Bank'', bank),
                  (''Transaction Category'', category), (''Merchant Location'', location)]]"
proof -
  from assms(2) obtain d v a where d: "data = PDict d" "map_of d ''amount'' = Some v"
      "py_float lib v = Inr a" "data' = PDict (AList.update ''amount'' (PFloat a) d)"
    unfolding coerce_amount_Inr_iff by blast
  have amount: "py_getitem data ''amount'' = Inr v" using d(1,2) by simp
  have other: "py_getitem data' k = py_getitem data k" if "k \<noteq> ''amount''" for k
    unfolding d(1,4) using that by (rule getitem_update_other)
  have upd: "py_getitem data' ''amount'' = Inr (PFloat a)"
    unfolding d(4) by (rule getitem_update_amount)
  from assms(3) obtain amount' state card_type bank category location where r:
      "py_getitem data' ''amount'' = Inr amount'"
      "py_getitem data' ''state'' = Inr state"
      "py_getitem data' ''card_type'' = Inr card_type"
      "py_getitem data' ''bank'' = Inr bank"
      "py_getitem data' ''category'' = Inr category"
      "py_getitem data' ''location'' = Inr location"
      "df = [[(''Transaction Amount (INR)'', amount'), (''State'', state),
              (''Card Type'', card_type), (''Bank'', bank),
              (''Transaction Category'', category), (''Merchant Location'', location)]]"
    unfolding input_data_Inr_iff by blast
  from r(1) upd have a: "amount' = PFloat a" by simp
  have "py_getitem data ''state'' = Inr state" using r(2) other [of "''state''"] by simp
  moreover have "py_getitem data ''card_type'' = Inr card_type"
    using r(3) other [of "''card_type''"] by simp
  moreover have "py_getitem data ''bank'' = Inr bank" using r(4) other [of "''bank''"] by simp
  moreover have "py_getitem data ''category'' = Inr category"
    using r(5) other [of "''category''"] by simp
  moreover have "py_getitem data ''location'' = Inr location"
    using r(6) other [of "''location''"] by simp
  ultimately show ?thesis using amount d(3) r(7) a by blast
qed

lemma predict_try_outcomes:
  "(\<exists>e. fst (predict_try lib g req) = Inl e) \<or>
   fst (predict_try lib g req) = Inr invalid_amount_response \<or>
   (\<exists>i f. fst (predict_try lib g req) = Inr (success_response i f))"
  unfolding predict_try_def run_model_def bind_exn_def
  by (auto split: sum.splits option.splits)

lemma run_model_linear:
  "\<exists>df' X n. snd (run_model lib g df) = take n [Transform df', Predict X, PredictProba X]"
proof -
  have "snd (run_model lib g df) = [] \<or> snd (run_model lib g df) = [Transform df] \<or>
      (\<exists>X. snd (run_model lib g df) = [Transform df, Predict X]) \<or>
      (\<exists>X. snd (run_model lib g df) = [Transform df, Predict X, PredictProba X])"
    unfolding run_model_def by (simp split: option.splits sum.splits)
  then consider "snd (run_model lib g df) = []" | "snd (run_model lib g df) = [Transform df]"
    | X where "snd (run_model lib g df) = [Transform df, Predict X]"
    | X where "snd (run_model lib g df) = [Transform df, Predict X, PredictProba X]"
    by blast
  then show ?thesis
  proof cases
    case 1
    then have "snd (run_model lib g df) =
        take 0 [Transform df, Predict undefined, PredictProba undefined]" by simp
    then show ?thesis by blast
  next
    case 2
    then have "snd (run_model lib g df) =
        take 1 [Transform df, Predict undefined, PredictProba undefined]" by simp
    then show ?thesis by blast
  next
    case 3
    then have "snd (run_model lib g df) = take 2 [Transform df, Predict X, PredictProba X]"
      by simp
    then show ?thesis by blast
  next
    case 4
    then have "snd (run_model lib g df) = take 3 [Transform df, Predict X, PredictProba X]"
      by simp
    then show ?thesis by blast
  qed
qed

lemma no_calls_linear:
  "\<exists>df X n. ([] :: ('f, 'x) call list) = take n [Transform df, Predict X, PredictProba X]"
proof -
  have "([] :: ('f, 'x) call list) =
          take 0 [Transform undefined, Predict undefined, PredictProba undefined]"
    by simp
  then show ?thesis by blast
qed

lemma predict_try_linear:
  "\<exists>df X n. snd (predict_try lib g req) = take n [Transform df, Predict X, PredictProba X]"
  unfolding predict_try_def
  using no_calls_linear [where ?'f = 'a and ?'x = 'b] run_model_linear [of lib g]
  by (simp split: sum.splits)

lemma sample_globals_eq:
  "sample_globals =
     \<lparr>model = Some sample_artifact, preprocessor = Some sample_artifact, RESOURCES_LOADED = True\<rparr>"
  by (simp add: sample_globals_def load_resources_def sample_joblib_def init_globals_def)

lemmas sample_defs =
  predict_def predict_try_def coerce_amount_def input_data_def run_model_def
  sample_request_def sample_fields_def sample_lib_def sample_artifact_def sample_record_def
  jsonify_def not_loaded_response_def invalid_amount_response_def success_response_def
  exception_response_def

lemma sample_predict:
  "predict sample_lib sample_globals sample_request =
     (success_response 1 (9 / 10), sample_globals,
      [Transform sample_record, Predict 1, PredictProba 1])"
  unfolding sample_globals_eq by (simp add: sample_defs)

subsection \<open>The null-resource guard\<close>

text \<open>
  C3. A request that arrives while \<open>RESOURCES_LOADED\<close> is false, or \<open>model\<close> is None,
  or \<open>preprocessor\<close> is None, gets status 500 with the body
  \<open>{'error': 'Model resources not fully loaded on server.'}\<close>, and none of transform,
  predict and predict_proba is called.
\<close>

theorem predict_not_loaded_500:
  assumes "\<not> RESOURCES_LOADED g \<or> model g = None \<or> preprocessor g = None"
  shows "response_of (predict lib g req) =
           \<lparr>body = [(''error'', PStr ''Model resources not fully loaded on server.'')],
            status = 500\<rparr> \<and>
         calls_of (predict lib g req) = []"
  using predict_not_loaded [OF assms, of lib req]
  by (simp add: not_loaded_response_def jsonify_def)

theorem predict_not_loaded_500_witness:
  "RESOURCES_LOADED (init_globals :: (rat, nat) globals) = False \<and>
   response_of (predict sample_lib (init_globals :: (rat, nat) globals) sample_request) =
     \<lparr>body = [(''error'', PStr ''Model resources not fully loaded on server.'')],
      status = 500\<rparr> \<and>
   calls_of (predict sample_lib (init_globals :: (rat, nat) globals) sample_request) = []"
proof -
  have h: "\<not> RESOURCES_LOADED (init_globals :: (rat, nat) globals) \<or>
           model (init_globals :: (rat, nat) globals) = None \<or>
           preprocessor (init_globals :: (rat, nat) globals) = None"
    by (simp add: init_globals_def)
  show ?thesis
    using predict_not_loaded_500 [OF h, of sample_lib sample_request]
    by (simp add: init_globals_def)
qed

subsection \<open>The outcomes of a request\<close>

text \<open>
  C5. The handler branches on the two guards only. Every response is the
  null-resource 500, the type-coercion 400, the success reply, or the 500 that the
  blanket handler builds from an exception; and the calls into the artifacts are an
  initial part of transform, predict, predict_proba, in that order on one record.
\<close>

theorem predict_outcomes:
  "(response_of (predict lib g req) = not_loaded_response \<or>
    response_of (predict lib g req) = invalid_amount_response \<or>
    (\<exists>i f. response_of (predict lib g req) = success_response i f) \<or>
    (\<exists>e. response_of (predict lib g req) = exception_response lib e)) \<and>
   (\<exists>df X n. calls_of (predict lib g req) = take n [Transform df, Predict X, PredictProba X])"
proof (cases "\<not> RESOURCES_LOADED g \<or> model g = None \<or> preprocessor g = None")
  case True
  then have "predict lib g req = (not_loaded_response, g, [])" by (rule predict_not_loaded)
  then show ?thesis using no_calls_linear by simp
next
  case False
  then obtain m p where mp: "RESOURCES_LOADED g" "model g = Some m" "preprocessor g = Some p"
    by auto
  obtain r calls where r: "predict_try lib g req = (r, calls)"
    by (cases "predict_try lib g req")
  have resp: "response_of (predict lib g req) =
                (case r of Inl e \<Rightarrow> exception_response lib e | Inr resp \<Rightarrow> resp)"
    unfolding predict_loaded [OF mp] r by (simp split: sum.splits)
  have "calls_of (predict lib g req) = calls"
    unfolding predict_loaded [OF mp] r by (simp split: sum.splits)
  with predict_try_linear [of lib g req] r
  have linear: "\<exists>df X n. calls_of (predict lib g req) =
      take n [Transform df, Predict X, PredictProba X]"
    by simp
  from predict_try_outcomes [of lib g req] r
  consider e where "r = Inl e" | "r = Inr invalid_amount_response"
    | i f where "r = Inr (success_response i f)" by auto
  then have "response_of (predict lib g req) = not_loaded_response \<or>
    response_of (predict lib g req) = invalid_amount_response \<or>
    (\<exists>i f. response_of (predict lib g req) = success_response i f) \<or>
    (\<exists>e. response_of (predict lib g req) = exception_response lib e)"
  proof cases
    case 1 then show ?thesis using resp by auto
  next
    case 2 then show ?thesis using resp by simp
  next
    case 3 then show ?thesis using resp by auto
  qed
  with linear show ?thesis by blast
qed

theorem predict_outcomes_witness:
  "(response_of (predict sample_lib sample_globals sample_request) = not_loaded_response \<or>
    response_of (predict sample_lib sample_globals sample_request) = invalid_amount_response \<or>
    (\<exists>i f. response_of (predict sample_lib sample_globals sample_request) =
       success_response i f) \<or>
    (\<exists>e. response_of (predict sample_lib sample_globals sample_request) =
       exception_response sample_lib e)) \<and>
   (\<exists>df X n. calls_of (predict sample_lib sample_globals sample_request) =
      take n [Transform df, Predict X, PredictProba X])"
  by (rule predict_outcomes)

subsection \<open>The globals after a request\<close>

text \<open>
  C10. Neither handler assigns a global: after \<open>home\<close> and after \<open>predict\<close>, on every
  path, \<open>model\<close>, \<open>preprocessor\<close> and \<open>RESOURCES_LOADED\<close> are what they were before.
\<close>

theorem handlers_keep_globals:
  "snd (home g) = g \<and> globals_of (predict lib g req) = g"
  by (simp add: home_def predict_def split: prod.splits sum.splits)

theorem handlers_keep_globals_witness:
  "snd (home sample_globals) = sample_globals \<and>
   globals_of (predict sample_lib sample_globals sample_request) = sample_globals \<and>
   globals_of (predict sample_lib sample_globals invalid_amount_request) = sample_globals"
  using handlers_keep_globals [of sample_globals sample_lib sample_request]
    handlers_keep_globals [of sample_globals sample_lib invalid_amount_request]
  by simp

subsection \<open>The successful path\<close>

lemma sample_transform_called:
  "Transform sample_record \<in> set (calls_of (predict sample_lib sample_globals sample_request))"
  by (simp add: sample_predict)

text \<open>
  C1 as stated fails: with the resources loaded, an amount that \<open>float\<close> converts
  and an artifact whose methods never raise, a body without 'state' gets the blanket
  handler's 500 for the KeyError raised while the record is built, before any call.
\<close>

theorem predict_success_counterexample:
  "RESOURCES_LOADED sample_globals \<and> model sample_globals = Some sample_artifact \<and>
   preprocessor sample_globals = Some sample_artifact \<and>
   get_json no_state_request = Inr (PDict (AList.delete ''state'' sample_fields)) \<and>
   py_getitem (PDict (AList.delete ''state'' sample_fields)) ''amount'' = Inr (PStr ''2500.50'') \<and>
   py_float sample_lib (PStr ''2500.50'') = Inr (5001 / 2) \<and>
   (\<forall>df e. obj_transform sample_artifact df \<noteq> Inl e) \<and>
   (\<forall>X e. obj_predict sample_artifact X \<noteq> Inl e) \<and>
   (\<forall>X e. obj_predict_proba sample_artifact X \<noteq> Inl e) \<and>
   predict sample_lib sample_globals no_state_request =
     (exception_response sample_lib (KeyError ''state''), sample_globals, []) \<and>
   status (response_of (predict sample_lib sample_globals no_state_request)) = 500"
proof -
  have p: "predict sample_lib sample_globals no_state_request =
     (exception_response sample_lib (KeyError ''state''), sample_globals, [])"
    unfolding sample_globals_eq
    by (simp add: predict_def predict_try_def coerce_amount_def input_data_def
        no_state_request_def sample_fields_def sample_lib_def)
  have s: "status (exception_response sample_lib (KeyError ''state'')) = 500"
    by (simp add: exception_response_def jsonify_def)
  have a: "py_getitem (PDict (AList.delete ''state'' sample_fields)) ''amount'' =
      Inr (PStr ''2500.50'')"
    by (simp add: sample_fields_def)
  have f: "py_float sample_lib (PStr ''2500.50'') = Inr (5001 / 2)"
    by (simp add: sample_lib_def)
  have m: "(\<forall>df e. obj_transform sample_artifact df \<noteq> Inl e) \<and>
      (\<forall>X e. obj_predict sample_artifact X \<noteq> Inl e) \<and>
      (\<forall>X e. obj_predict_proba sample_artifact X \<noteq> Inl e)"
    by (simp add: sample_artifact_def)
  show ?thesis
    using p s a f m by (simp add: sample_globals_eq no_state_request_def)
qed

text \<open>
  C1, amended. With the resources loaded, when \<open>float(data['amount'])\<close> succeeds, the
  five other keys can be read, transform, predict and predict_proba return, the
  indexing \<open>[0]\<close> and \<open>[0, 1]\<close> is in range and \<open>int\<close> and \<open>float\<close> convert the
  two elements, the reply has status 200 and the body
  \<open>{'prediction': int(predict(X)[0]), 'probability': float(predict_proba(X)[0, 1])}\<close>
  where \<open>X\<close> is the transform of that one-row record: the label and the class-1
  probability of the classifier on the same transformed record.
\<close>

theorem predict_success:
  assumes loaded: "RESOURCES_LOADED g" "model g = Some m" "preprocessor g = Some p"
      and json: "get_json req = Inr data"
      and amount: "coerce_amount lib data = Inr data'"
      and frame: "input_data data' = Inr record"
      and transform: "obj_transform p record = Inr X"
      and labels: "obj_predict m X = Inr labels" "getitem_0 labels = Inr prediction"
        "py_int lib prediction = Inr i"
      and probs: "obj_predict_proba m X = Inr probs" "getitem_0_1 probs = Inr prediction_proba"
        "py_float lib prediction_proba = Inr f"
  shows "predict lib g req =
           (\<lparr>body = [(''prediction'', PInt i), (''probability'', PFloat f)], status = 200\<rparr>, g,
            [Transform record, Predict X, PredictProba X])"
  unfolding predict_loaded [OF loaded]
  by (simp add: predict_try_def run_model_def loaded json amount frame transform labels probs
      success_response_def jsonify_def)

theorem predict_success_witness:
  "predict sample_lib sample_globals sample_request =
     (\<lparr>body = [(''prediction'', PInt 1), (''probability'', PFloat (9 / 10))], status = 200\<rparr>,
      sample_globals, [Transform sample_record, Predict 1, PredictProba 1])"
proof -
  let ?data' = "PDict (AList.update ''amount'' (PFloat (5001 / 2)) sample_fields)"
  have g: "RESOURCES_LOADED sample_globals" "model sample_globals = Some sample_artifact"
      "preprocessor sample_globals = Some sample_artifact"
    by (simp_all add: sample_globals_eq)
  have j: "get_json sample_request = Inr (PDict sample_fields)"
    by (simp add: sample_request_def)
  have a: "coerce_amount sample_lib (PDict sample_fields) = Inr ?data'"
    by (simp add: coerce_amount_def sample_fields_def sample_lib_def)
  have r: "input_data ?data' = Inr sample_record"
    by (simp add: input_data_def sample_fields_def sample_record_def)
  have t: "obj_transform sample_artifact sample_record = Inr 1"
    by (simp add: sample_artifact_def sample_record_def)
  have l: "obj_predict sample_artifact 1 = Inr [PInt 1]" "getitem_0 [PInt 1 :: rat pyval] = Inr (PInt 1)"
      "py_int sample_lib (PInt 1) = Inr 1"
    by (simp_all add: sample_artifact_def)
  have q: "obj_predict_proba sample_artifact 1 = Inr [[PFloat (1 / 10), PFloat (9 / 10)]]"
      "getitem_0_1 [[PFloat (1 / 10), PFloat (9 / 10 :: rat)]] = Inr (PFloat (9 / 10))"
      "py_float sample_lib (PFloat (9 / 10)) = Inr (9 / 10)"
    by (simp_all add: sample_artifact_def)
  show ?thesis
    by (rule predict_success [OF g j a r t l q])
qed

subsection \<open>The record handed to the preprocessor\<close>

lemma run_model_calls_Transform:
  "preprocessor g = Some p \<Longrightarrow> Transform df \<in> set (snd (run_model lib g df))"
  unfolding run_model_def by (simp split: sum.splits option.splits)

lemma predict_try_hands_record:
  assumes "get_json req = Inr data" "coerce_amount lib data = Inr data'"
      "input_data data' = Inr df" "preprocessor g = Some p"
  shows "Transform df \<in> set (snd (predict_try lib g req))"
  unfolding predict_try_def using assms by (simp add: run_model_calls_Transform)

lemma request_gives_record:
  assumes "py_getitem data ''amount'' = Inr v" "py_float lib v = Inr amount"
      "py_getitem data ''state'' = Inr state"
      "py_getitem data ''card_type'' = Inr card_type"
      "py_getitem data ''bank'' = Inr bank"
      "py_getitem data ''category'' = Inr category"
      "py_getitem data ''location'' = Inr location"
  shows "\<exists>data'. coerce_amount lib data = Inr data' \<and>
           input_data data' =
             Inr [[(''Transaction Amount (INR)'', PFloat amount), (''State'', state),
                   (''Card Type'', card_type), (''Bank'', bank),
                   (''Transaction Category'', category), (''Merchant Location'', location)]]"
proof -
  from assms(1) obtain d where d: "data = PDict d" "map_of d ''amount'' = Some v"
    unfolding py_getitem_Inr_iff by blast
  let ?data' = "PDict (AList.update ''amount'' (PFloat amount) d)"
  have c: "coerce_amount lib data = Inr ?data'"
    unfolding coerce_amount_Inr_iff using d assms(2) by blast
  have other: "py_getitem ?data' k = py_getitem data k" if "k \<noteq> ''amount''" for k
    unfolding d(1) using that by (rule getitem_update_other)
  have "input_data ?data' =
          Inr [[(''Transaction Amount (INR)'', PFloat amount), (''State'', state),
                (''Card Type'', card_type), (''Bank'', bank),
                (''Transaction Category'', category), (''Merchant Location'', location)]]"
    unfolding input_data_def getitem_update_amount
    by (simp add: other assms(3-7) del: py_getitem.simps)
  with c show ?thesis by blast
qed

text \<open>
  C2. A record is handed to the preprocessor exactly when both guards are passed and
  the six keys can be read; it is then a table of one row with the six fields
  'Transaction Amount (INR)', 'State', 'Card Type', 'Bank', 'Transaction Category',
  'Merchant Location', in this order, filled from the request keys 'amount', 'state',
  'card_type', 'bank', 'category', 'location' respectively.
\<close>

theorem record_schema:
  "Transform df \<in> set (calls_of (predict lib g req)) \<longleftrightarrow>
     RESOURCES_LOADED g \<and> model g \<noteq> None \<and> preprocessor g \<noteq> None \<and>
     (\<exists>data v amount state card_type bank category location.
        get_json req = Inr data \<and>
        py_getitem data ''amount'' = Inr v \<and> py_float lib v = Inr amount \<and>
        py_getitem data ''state'' = Inr state \<and>
        py_getitem data ''card_type'' = Inr card_type \<and>
        py_getitem data ''bank'' = Inr bank \<and>
        py_getitem data ''category'' = Inr category \<and>
        py_getitem data ''location'' = Inr location \<and>
        df = [[(''Transaction Amount (INR)'', PFloat amount), (''State'', state),
               (''Card Type'', card_type), (''Bank'', bank),
               (''Transaction Category'', category), (''Merchant Location'', location)]])"
  (is "?handed \<longleftrightarrow> ?loaded \<and> ?m \<and> ?p \<and> ?built")
proof
  assume h: ?handed
  have guard: "\<not> (\<not> RESOURCES_LOADED g \<or> model g = None \<or> preprocessor g = None)"
  proof
    assume "\<not> RESOURCES_LOADED g \<or> model g = None \<or> preprocessor g = None"
    then have "predict lib g req = (not_loaded_response, g, [])" by (rule predict_not_loaded)
    with h show False by simp
  qed
  from predict_Transform [OF h] obtain data data' where
    r: "get_json req = Inr data" "coerce_amount lib data = Inr data'" "input_data data' = Inr df"
    by blast
  from record_from_request [OF r] r(1) have built: ?built by blast
  from guard have ?loaded ?m ?p by simp_all
  with built show "?loaded \<and> ?m \<and> ?p \<and> ?built" by (intro conjI)
next
  assume r: "?loaded \<and> ?m \<and> ?p \<and> ?built"
  then obtain m p where mp: "RESOURCES_LOADED g" "model g = Some m" "preprocessor g = Some p"
    by auto
  from r obtain data v amount state card_type bank category location where
    j: "get_json req = Inr data" and
    k: "py_getitem data ''amount'' = Inr v" "py_float lib v = Inr amount"
       "py_getitem data ''state'' = Inr state"
       "py_getitem data ''card_type'' = Inr card_type"
       "py_getitem data ''bank'' = Inr bank"
       "py_getitem data ''category'' = Inr category"
       "py_getitem data ''location'' = Inr location" and
    df: "df = [[(''Transaction Amount (INR)'', PFloat amount), (''State'', state),
               (''Card Type'', card_type), (''Bank'', bank),
               (''Transaction Category'', category), (''Merchant Location'', location)]]"
    by blast
  from request_gives_record [OF k] df obtain data' where
    "coerce_amount lib data = Inr data'" "input_data data' = Inr df" by blast
  from predict_try_hands_record [OF j this mp(3)]
  have "Transform df \<in> set (snd (predict_try lib g req))" .
  moreover have "calls_of (predict lib g req) = snd (predict_try lib g req)"
    unfolding predict_loaded [OF mp] by (simp split: prod.splits sum.splits)
  ultimately show ?handed by simp
qed

theorem record_schema_witness:
  "Transform sample_record \<in> set (calls_of (predict sample_lib sample_globals sample_request)) \<and>
   (RESOURCES_LOADED sample_globals \<and> model sample_globals \<noteq> None \<and>
    preprocessor sample_globals \<noteq> None \<and>
    (\<exists>data v amount state card_type bank category location.
        get_json sample_request = Inr data \<and>
        py_getitem data ''amount'' = Inr v \<and> py_float sample_lib v = Inr amount \<and>
        py_getitem data ''state'' = Inr state \<and>
        py_getitem data ''card_type'' = Inr card_type \<and>
        py_getitem data ''bank'' = Inr bank \<and>
        py_getitem data ''category'' = Inr category \<and>
        py_getitem data ''location'' = Inr location \<and>
        sample_record =
          [[(''Transaction Amount (INR)'', PFloat amount), (''State'', state),
            (''Card Type'', card_type), (''Bank'', bank),
            (''Transaction Category'', category), (''Merchant Location'', location)]]))"
  using sample_transform_called record_schema [THEN iffD1, OF sample_transform_called]
  by (rule conjI)

text \<open>
  C7. Only 'amount' is coerced: in every record handed to the preprocessor, the cells
  'State', 'Card Type', 'Bank', 'Transaction Category' and 'Merchant Location' hold
  the values of 'state', 'card_type', 'bank', 'category' and 'location' of the request
  as they were received.
\<close>

theorem categorical_fields_unchanged:
  assumes "Transform df \<in> set (calls_of (predict lib g req))"
      and "get_json req = Inr data"
  shows "\<exists>row state card_type bank category location.
           df = [row] \<and>
           py_getitem data ''state'' = Inr state \<and> map_of row ''State'' = Some state \<and>
           py_getitem data ''card_type'' = Inr card_type \<and>
           map_of row ''Card Type'' = Some card_type \<and>
           py_getitem data ''bank'' = Inr bank \<and> map_of row ''Bank'' = Some bank \<and>
           py_getitem data ''category'' = Inr category \<and>
           map_of row ''Transaction Category'' = Some category \<and>
           py_getitem data ''location'' = Inr location \<and>
           map_of row ''Merchant Location'' = Some location"
proof -
  from predict_Transform [OF assms(1)] assms(2) obtain data' where
    "get_json req = Inr data" "coerce_amount lib data = Inr data'" "input_data data' = Inr df"
    by auto
  from record_from_request [OF this] show ?thesis by auto
qed

theorem categorical_fields_unchanged_witness:
  "\<exists>row state card_type bank category location.
     sample_record = [row] \<and>
     py_getitem (PDict sample_fields) ''state'' = Inr state \<and>
     map_of row ''State'' = Some state \<and>
     py_getitem (PDict sample_fields) ''card_type'' = Inr card_type \<and>
     map_of row ''Card Type'' = Some card_type \<and>
     py_getitem (PDict sample_fields) ''bank'' = Inr bank \<and> map_of row ''Bank'' = Some bank \<and>
     py_getitem (PDict sample_fields) ''category'' = Inr category \<and>
     map_of row ''Transaction Category'' = Some category \<and>
     py_getitem (PDict sample_fields) ''location'' = Inr location \<and>
     map_of row ''Merchant Location'' = Some location"
proof -
  have j: "get_json sample_request = Inr (PDict sample_fields)"
    by (simp add: sample_request_def)
  show ?thesis
    by (rule categorical_fields_unchanged [OF sample_transform_called j])
qed

subsection \<open>The type-coercion guard\<close>

lemma response_status_simps:
  "status (not_loaded_response :: 'f response) = 500"
  "status (invalid_amount_response :: 'f response) = 400"
  "status (success_response i f) = 200"
  "status (exception_response lib e) = 500"
  by (simp_all add: not_loaded_response_def invalid_amount_response_def success_response_def
      exception_response_def jsonify_def)

lemma predict_try_400_iff:
  "fst (predict_try lib g req) = Inr invalid_amount_response \<longleftrightarrow>
     (\<exists>data. get_json req = Inr data \<and> coerce_amount lib data = Inl ValueError)"
proof -
  have ne: "success_response i f \<noteq> (invalid_amount_response :: 'a response)" for i and f :: 'a
  proof
    assume "success_response i f = (invalid_amount_response :: 'a response)"
    then have "status (success_response i f) = status (invalid_amount_response :: 'a response)"
      by simp
    then show False by (simp add: response_status_simps)
  qed
  show ?thesis
    unfolding predict_try_def run_model_def bind_exn_def
    by (auto split: sum.splits option.splits simp: ne)
qed

lemma predict_loaded_response:
  assumes "RESOURCES_LOADED g" "model g = Some m" "preprocessor g = Some p"
  shows "response_of (predict lib g req) =
           (case fst (predict_try lib g req) of
              Inl e \<Rightarrow> exception_response lib e | Inr resp \<Rightarrow> resp)"
    and "calls_of (predict lib g req) = snd (predict_try lib g req)"
  unfolding predict_loaded [OF assms] by (simp_all split: prod.splits sum.splits)

lemma predict_400_iff:
  assumes "RESOURCES_LOADED g" "model g = Some m" "preprocessor g = Some p"
  shows "status (response_of (predict lib g req)) = 400 \<longleftrightarrow>
           fst (predict_try lib g req) = Inr invalid_amount_response"
  unfolding predict_loaded_response(1) [OF assms]
  using predict_try_outcomes [of lib g req]
  by (auto simp: response_status_simps)

text \<open>
  C4. With the resources loaded, the reply is the 400 with the body
  \<open>{'error': 'Invalid format for Transaction Amount. Must be a number.'}\<close> if and only
  if \<open>float(data['amount'])\<close> raises ValueError, and no other reply has status 400;
  when the conversion succeeds, the 'Transaction Amount (INR)' cell of the record is
  the converted float, not the value received.
\<close>

theorem amount_coercion:
  assumes "RESOURCES_LOADED g" "model g \<noteq> None" "preprocessor g \<noteq> None"
  shows "(response_of (predict lib g req) =
            \<lparr>body = [(''error'', PStr ''Invalid format for Transaction Amount. Must be a number.'')],
             status = 400\<rparr> \<longleftrightarrow>
          (\<exists>data v. get_json req = Inr data \<and> py_getitem data ''amount'' = Inr v \<and>
             py_float lib v = Inl ValueError)) \<and>
         (status (response_of (predict lib g req)) = 400 \<longleftrightarrow>
          (\<exists>data v. get_json req = Inr data \<and> py_getitem data ''amount'' = Inr v \<and>
             py_float lib v = Inl ValueError)) \<and>
         (\<forall>df. Transform df \<in> set (calls_of (predict lib g req)) \<longrightarrow>
            (\<exists>data v a row. get_json req = Inr data \<and> py_getitem data ''amount'' = Inr v \<and>
               py_float lib v = Inr a \<and> df = [row] \<and>
               map_of row ''Transaction Amount (INR)'' = Some (PFloat a)))"
proof -
  from assms obtain m p where mp: "RESOURCES_LOADED g" "model g = Some m" "preprocessor g = Some p"
    by auto
  let ?raises = "\<exists>data v. get_json req = Inr data \<and> py_getitem data ''amount'' = Inr v \<and>
             py_float lib v = Inl ValueError"
  have try_iff: "fst (predict_try lib g req) = Inr invalid_amount_response \<longleftrightarrow> ?raises"
    unfolding predict_try_400_iff coerce_amount_ValueError_iff by blast
  have status_iff: "status (response_of (predict lib g req)) = 400 \<longleftrightarrow> ?raises"
    unfolding predict_400_iff [OF mp] by (rule try_iff)
  have "response_of (predict lib g req) = invalid_amount_response \<longleftrightarrow> ?raises"
  proof
    assume "response_of (predict lib g req) = invalid_amount_response"
    then have "status (response_of (predict lib g req)) = 400"
      by (simp add: response_status_simps)
    then show ?raises by (simp only: status_iff)
  next
    assume ?raises
    then have "fst (predict_try lib g req) = Inr invalid_amount_response"
      by (simp only: try_iff)
    then show "response_of (predict lib g req) = invalid_amount_response"
      unfolding predict_loaded_response(1) [OF mp] by simp
  qed
  then have resp_iff: "response_of (predict lib g req) =
            \<lparr>body = [(''error'', PStr ''Invalid format for Transaction Amount. Must be a number.'')],
             status = 400\<rparr> \<longleftrightarrow> ?raises"
    by (simp add: invalid_amount_response_def jsonify_def)
  have cell: "\<exists>data v a row. get_json req = Inr data \<and> py_getitem data ''amount'' = Inr v \<and>
               py_float lib v = Inr a \<and> df = [row] \<and>
               map_of row ''Transaction Amount (INR)'' = Some (PFloat a)"
    if "Transform df \<in> set (calls_of (predict lib g req))" for df
  proof -
    from predict_Transform [OF that] obtain data data' where
      r: "get_json req = Inr data" "coerce_amount lib data = Inr data'" "input_data data' = Inr df"
      by blast
    from record_from_request [OF r] r(1) show ?thesis by auto
  qed
  from resp_iff status_iff cell show ?thesis by blast
qed

theorem amount_coercion_witness:
  "response_of (predict sample_lib sample_globals invalid_amount_request) =
     \<lparr>body = [(''error'', PStr ''Invalid format for Transaction Amount. Must be a number.'')],
      status = 400\<rparr> \<and>
   status (response_of (predict sample_lib sample_globals sample_request)) \<noteq> 400 \<and>
   (\<exists>data v a row. get_json sample_request = Inr data \<and> py_getitem data ''amount'' = Inr v \<and>
      py_float sample_lib v = Inr a \<and> sample_record = [row] \<and>
      map_of row ''Transaction Amount (INR)'' = Some (PFloat a))"
proof -
  have g: "RESOURCES_LOADED sample_globals" "model sample_globals \<noteq> None"
      "preprocessor sample_globals \<noteq> None"
    by (simp_all add: sample_globals_eq)
  have raises: "\<exists>data v. get_json invalid_amount_request = Inr data \<and>
      py_getitem data ''amount'' = Inr v \<and> py_float sample_lib v = Inl ValueError"
    by (simp add: invalid_amount_request_def sample_fields_def sample_lib_def)
  have ok: "\<not> (\<exists>data v. get_json sample_request = Inr data \<and>
      py_getitem data ''amount'' = Inr v \<and> py_float sample_lib v = Inl ValueError)"
    by (simp add: sample_request_def sample_fields_def sample_lib_def)
  from amount_coercion [OF g, of sample_lib invalid_amount_request] raises
  have 1: "response_of (predict sample_lib sample_globals invalid_amount_request) =
     \<lparr>body = [(''error'', PStr ''Invalid format for Transaction Amount. Must be a number.'')],
      status = 400\<rparr>" by blast
  from amount_coercion [OF g, of sample_lib sample_request] ok
  have 2: "status (response_of (predict sample_lib sample_globals sample_request)) \<noteq> 400"
    by blast
  from amount_coercion [OF g, of sample_lib sample_request] sample_transform_called
  have 3: "\<exists>data v a row. get_json sample_request = Inr data \<and>
      py_getitem data ''amount'' = Inr v \<and>
      py_float sample_lib v = Inr a \<and> sample_record = [row] \<and>
      map_of row ''Transaction Amount (INR)'' = Some (PFloat a)" by blast
  from 1 2 3 show ?thesis by (intro conjI)
qed

lemma coerce_amount_raises:
  assumes "py_getitem data ''amount'' = Inr v" "py_float lib v = Inl e"
  shows "coerce_amount lib data = Inl e"
  unfolding coerce_amount_def using assms by simp

lemma predict_try_coerce_raises:
  assumes "get_json req = Inr data" "coerce_amount lib data = Inl e" "e \<noteq> ValueError"
  shows "predict_try lib g req = (Inl e, [])"
  unfolding predict_try_def using assms by simp

lemma predict_try_input_raises:
  assumes "get_json req = Inr data" "coerce_amount lib data = Inr data'"
      "input_data data' = Inl e"
  shows "predict_try lib g req = (Inl e, [])"
  unfolding predict_try_def using assms by simp

lemma predict_raises:
  assumes "RESOURCES_LOADED g" "model g = Some m" "preprocessor g = Some p"
      and "predict_try lib g req = (Inl e, calls)"
  shows "predict lib g req = (exception_response lib e, g, calls)"
  unfolding predict_loaded [OF assms(1-3)] assms(4) by simp

text \<open>
  C9. With the resources loaded, when \<open>float(data['amount'])\<close> raises TypeError, as it
  does on null, on a list and on an object, the inner handler does not catch it: the
  reply is the blanket handler's 500 for that TypeError, not the 400, and no artifact
  is called.
\<close>

theorem amount_type_error_500:
  assumes "RESOURCES_LOADED g" "model g \<noteq> None" "preprocessor g \<noteq> None"
      and "get_json req = Inr data" "py_getitem data ''amount'' = Inr v"
      and "py_float lib v = Inl TypeError"
  shows "predict lib g req = (exception_response lib TypeError, g, []) \<and>
         status (response_of (predict lib g req)) = 500 \<and>
         response_of (predict lib g req) \<noteq> invalid_amount_response \<and>
         py_float lib PNone = Inl TypeError \<and> py_float lib (PList xs) = Inl TypeError \<and>
         py_float lib (PDict kvs) = Inl TypeError"
proof -
  from assms(1-3) obtain m p where
    mp: "RESOURCES_LOADED g" "model g = Some m" "preprocessor g = Some p" by auto
  have "coerce_amount lib data = Inl TypeError"
    using assms(5,6) by (rule coerce_amount_raises)
  with assms(4) have "predict_try lib g req = (Inl TypeError, [])"
    by (rule predict_try_coerce_raises) simp
  with mp have r: "predict lib g req = (exception_response lib TypeError, g, [])"
    by (rule predict_raises)
  have "status (exception_response lib TypeError) \<noteq> status (invalid_amount_response :: 'a response)"
    by (simp add: response_status_simps)
  then have "exception_response lib TypeError \<noteq> invalid_amount_response" by auto
  with r show ?thesis by (simp add: response_status_simps)
qed

theorem amount_type_error_500_witness:
  "predict sample_lib sample_globals null_amount_request =
     (exception_response sample_lib TypeError, sample_globals, []) \<and>
   status (response_of (predict sample_lib sample_globals null_amount_request)) = 500"
proof -
  have g: "RESOURCES_LOADED sample_globals" "model sample_globals \<noteq> None"
      "preprocessor sample_globals \<noteq> None"
    by (simp_all add: sample_globals_eq)
  have j: "get_json null_amount_request =
      Inr (PDict (AList.update ''amount'' PNone sample_fields))"
    by (simp add: null_amount_request_def)
  have a: "py_getitem (PDict (AList.update ''amount'' PNone sample_fields)) ''amount'' =
      Inr (PNone :: rat pyval)"
    by (rule getitem_update_amount)
  have f: "py_float sample_lib PNone = Inl TypeError" by simp
  from amount_type_error_500 [OF g j a f] show ?thesis by blast
qed

subsection \<open>Missing keys\<close>

text \<open>
  C8 as stated fails: a body that lacks 'state' and whose 'amount' is the string
  'abc' gets status 400, since the amount is converted before the other keys are read.
\<close>

theorem missing_key_400_counterexample:
  "get_json amount_only_request = Inr (PDict [(''amount'', PStr ''abc'')]) \<and>
   map_of [(''amount'', PStr ''abc'' :: rat pyval)] ''state'' = None \<and>
   RESOURCES_LOADED sample_globals \<and> model sample_globals \<noteq> None \<and>
   preprocessor sample_globals \<noteq> None \<and>
   status (response_of (predict sample_lib sample_globals amount_only_request)) = 400"
  unfolding sample_globals_eq
  by (simp add: amount_only_request_def predict_def predict_try_def coerce_amount_def
      sample_lib_def invalid_amount_response_def jsonify_def)

lemma input_data_missing:
  assumes "map_of d k = None"
      and "k \<in> {''amount'', ''state'', ''card_type'', ''bank'', ''category'', ''location''}"
  shows "\<exists>e. input_data (PDict d) = Inl e"
proof (cases "input_data (PDict d)")
  case (Inl e)
  then show ?thesis by blast
next
  case (Inr df)
  then have "\<exists>v. py_getitem (PDict d) k = Inr v"
    unfolding input_data_Inr_iff using assms(2) by auto
  with assms(1) show ?thesis by simp
qed

text \<open>
  C8, amended. With the resources loaded, a JSON object that lacks one of the six keys
  gets the blanket handler's 500 with an 'error' message, and no artifact is called,
  unless its 'amount' is a string that \<open>float\<close> rejects (then the 400 comes first).
  A reply has status 400 only for an 'amount' that is a string \<open>float\<close> rejects.
\<close>

theorem missing_key_500:
  "(RESOURCES_LOADED g \<and> model g \<noteq> None \<and> preprocessor g \<noteq> None \<and>
    get_json req = Inr (PDict d) \<and>
    k \<in> {''amount'', ''state'', ''card_type'', ''bank'', ''category'', ''location''} \<and>
    map_of d k = None \<and>
    \<not> (\<exists>s. map_of d ''amount'' = Some (PStr s) \<and> float_of_str lib s = None)
    \<longrightarrow> (\<exists>e. predict lib g req = (exception_response lib e, g, [])) \<and>
        status (response_of (predict lib g req)) = 500 \<and>
        (\<exists>msg. body (response_of (predict lib g req)) = [(''error'', PStr msg)])) \<and>
   (status (response_of (predict lib g req)) = 400
    \<longrightarrow> (\<exists>d s. get_json req = Inr (PDict d) \<and> map_of d ''amount'' = Some (PStr s) \<and>
          float_of_str lib s = None))"
proof (intro conjI impI)
  assume h: "RESOURCES_LOADED g \<and> model g \<noteq> None \<and> preprocessor g \<noteq> None \<and>
    get_json req = Inr (PDict d) \<and>
    k \<in> {''amount'', ''state'', ''card_type'', ''bank'', ''category'', ''location''} \<and>
    map_of d k = None \<and>
    \<not> (\<exists>s. map_of d ''amount'' = Some (PStr s) \<and> float_of_str lib s = None)"
  note c = h [THEN conjunct2]
  note c2 = c [THEN conjunct2]
  note c3 = c2 [THEN conjunct2]
  note c4 = c3 [THEN conjunct2]
  note c5 = c4 [THEN conjunct2]
  from h [THEN conjunct1] c [THEN conjunct1] c2 [THEN conjunct1] obtain m p where
    mp: "RESOURCES_LOADED g" "model g = Some m" "preprocessor g = Some p" by auto
  note j = c3 [THEN conjunct1]
  note k = c4 [THEN conjunct1] c5 [THEN conjunct1]
  note ok = c5 [THEN conjunct2]
  have nv: "coerce_amount lib (PDict d) \<noteq> Inl ValueError"
    unfolding coerce_amount_ValueError_iff py_float_ValueError_iff py_getitem_Inr_iff
    using ok by auto
  have "\<exists>e. predict_try lib g req = (Inl e, [])"
  proof (cases "coerce_amount lib (PDict d)")
    case (Inl e)
    with nv have "e \<noteq> ValueError" by auto
    with j Inl have "predict_try lib g req = (Inl e, [])"
      by (rule predict_try_coerce_raises)
    then show ?thesis by blast
  next
    case (Inr data')
    then obtain v a where d': "map_of d ''amount'' = Some v"
        "data' = PDict (AList.update ''amount'' (PFloat a) d)"
      unfolding coerce_amount_Inr_iff by auto
    from d'(1) k(2) have "k \<noteq> ''amount''" by auto
    with k(2) have "map_of (AList.update ''amount'' (PFloat a) d) k = None"
      by (simp add: update_conv')
    from input_data_missing [OF this k(1)] obtain e where "input_data data' = Inl e"
      unfolding d'(2) by blast
    with j Inr have "predict_try lib g req = (Inl e, [])"
      by (rule predict_try_input_raises)
    then show ?thesis by blast
  qed
  then obtain e where "predict_try lib g req = (Inl e, [])" by blast
  with mp have r: "predict lib g req = (exception_response lib e, g, [])"
    by (rule predict_raises)
  then show "\<exists>e. predict lib g req = (exception_response lib e, g, [])" by blast
  from r show "status (response_of (predict lib g req)) = 500"
    by (simp add: response_status_simps)
  from r show "\<exists>msg. body (response_of (predict lib g req)) = [(''error'', PStr msg)]"
    by (simp add: exception_response_def jsonify_def)
next
  assume s: "status (response_of (predict lib g req)) = 400"
  have "\<not> (\<not> RESOURCES_LOADED g \<or> model g = None \<or> preprocessor g = None)"
  proof
    assume "\<not> RESOURCES_LOADED g \<or> model g = None \<or> preprocessor g = None"
    then have "predict lib g req = (not_loaded_response, g, [])" by (rule predict_not_loaded)
    with s show False by (simp add: response_status_simps)
  qed
  then obtain m p where
    mp: "RESOURCES_LOADED g" "model g = Some m" "preprocessor g = Some p" by auto
  from s have "fst (predict_try lib g req) = Inr invalid_amount_response"
    unfolding predict_400_iff [OF mp] .
  then obtain data where "get_json req = Inr data" "coerce_amount lib data = Inl ValueError"
    unfolding predict_try_400_iff by blast
  then show "\<exists>d s. get_json req = Inr (PDict d) \<and> map_of d ''amount'' = Some (PStr s) \<and>
          float_of_str lib s = None"
    unfolding coerce_amount_ValueError_iff py_float_ValueError_iff py_getitem_Inr_iff
    by blast
qed

theorem missing_key_500_witness:
  "(\<exists>e. predict sample_lib sample_globals no_state_request =
        (exception_response sample_lib e, sample_globals, [])) \<and>
   status (response_of (predict sample_lib sample_globals no_state_request)) = 500 \<and>
   (\<exists>d s. get_json amount_only_request = Inr (PDict d) \<and>
      map_of d ''amount'' = Some (PStr s) \<and> float_of_str sample_lib s = None)"
proof -
  have g: "RESOURCES_LOADED sample_globals \<and> model sample_globals \<noteq> None \<and>
      preprocessor sample_globals \<noteq> None"
    by (simp add: sample_globals_eq)
  have j: "get_json no_state_request = Inr (PDict (AList.delete ''state'' sample_fields))"
    by (simp add: no_state_request_def)
  have k: "''state'' \<in> {''amount'', ''state'', ''card_type'', ''bank'', ''category'', ''location''}"
    by simp
  have n: "map_of (AList.delete ''state'' sample_fields) ''state'' = None"
    by (simp add: sample_fields_def)
  have ok: "\<not> (\<exists>s. map_of (AList.delete ''state'' sample_fields) ''amount'' = Some (PStr s) \<and>
      float_of_str sample_lib s = None)"
    by (simp add: sample_fields_def sample_lib_def)
  have s: "status (response_of (predict sample_lib sample_globals amount_only_request)) = 400"
    unfolding sample_globals_eq
    by (simp add: amount_only_request_def predict_def predict_try_def coerce_amount_def
        sample_lib_def invalid_amount_response_def jsonify_def)
  from missing_key_500 [of sample_globals no_state_request
      "AList.delete ''state'' sample_fields" "''state''" sample_lib] g j k n ok
  have 1: "(\<exists>e. predict sample_lib sample_globals no_state_request =
        (exception_response sample_lib e, sample_globals, [])) \<and>
     status (response_of (predict sample_lib sample_globals no_state_request)) = 500"
    by blast
  from missing_key_500 [of sample_globals amount_only_request _ _ sample_lib] s
  have 2: "\<exists>d s. get_json amount_only_request = Inr (PDict d) \<and>
      map_of d ''amount'' = Some (PStr s) \<and> float_of_str sample_lib s = None"
    by blast
  from 1 2 show ?thesis by blast
qed

subsection \<open>Loading at startup\<close>

text \<open>
  C6 as stated fails: when the model file unpickles to None, both loads complete,
  \<open>RESOURCES_LOADED\<close> is true and \<open>model\<close> is None.
\<close>

theorem load_resources_none_counterexample:
  "RESOURCES_LOADED (load_resources none_joblib init_globals) \<and>
   model (load_resources none_joblib init_globals) = None"
  by (simp add: load_resources_def none_joblib_def init_globals_def MODEL_PATH_def
      PREPROCESSOR_PATH_def)

text \<open>
  C6, amended. After \<open>load_resources\<close>, \<open>RESOURCES_LOADED\<close> is true if and only if both
  loads completed without an exception (so it is false if either raised); when it is
  true, \<open>preprocessor\<close> and \<open>model\<close> are the objects the two loads returned; and
  neither handler changes the flag.
\<close>

theorem load_resources_flag:
  "(RESOURCES_LOADED (load_resources joblib_load g0) \<longleftrightarrow>
      (\<exists>p m. joblib_load PREPROCESSOR_PATH = Inr p \<and> joblib_load MODEL_PATH = Inr m)) \<and>
   (RESOURCES_LOADED (load_resources joblib_load g0) \<longrightarrow>
      joblib_load PREPROCESSOR_PATH = Inr (preprocessor (load_resources joblib_load g0)) \<and>
      joblib_load MODEL_PATH = Inr (model (load_resources joblib_load g0))) \<and>
   RESOURCES_LOADED (snd (home g)) = RESOURCES_LOADED g \<and>
   RESOURCES_LOADED (globals_of (predict lib g req)) = RESOURCES_LOADED g"
proof -
  have flag: "RESOURCES_LOADED (load_resources joblib_load g0) \<longleftrightarrow>
      (\<exists>p m. joblib_load PREPROCESSOR_PATH = Inr p \<and> joblib_load MODEL_PATH = Inr m)"
    by (simp add: load_resources_def Let_def split: sum.splits)
  have vals: "RESOURCES_LOADED (load_resources joblib_load g0) \<longrightarrow>
      joblib_load PREPROCESSOR_PATH = Inr (preprocessor (load_resources joblib_load g0)) \<and>
      joblib_load MODEL_PATH = Inr (model (load_resources joblib_load g0))"
    by (simp add: load_resources_def Let_def split: sum.splits)
  have "snd (home g) = g" by (simp add: home_def)
  moreover have "globals_of (predict lib g req) = g"
    by (simp add: predict_def split: prod.splits sum.splits)
  ultimately show ?thesis using flag vals by simp
qed

theorem load_resources_flag_witness:
  "RESOURCES_LOADED (load_resources sample_joblib init_globals) \<and>
   sample_joblib PREPROCESSOR_PATH =
     Inr (preprocessor (load_resources sample_joblib init_globals)) \<and>
   sample_joblib MODEL_PATH = Inr (model (load_resources sample_joblib init_globals)) \<and>
   model (load_resources sample_joblib init_globals) = Some sample_artifact \<and>
   RESOURCES_LOADED (load_resources broken_joblib init_globals) = False"
proof -
  have ok: "\<exists>p m. sample_joblib PREPROCESSOR_PATH = Inr p \<and> sample_joblib MODEL_PATH = Inr m"
    by (simp add: sample_joblib_def)
  have bad: "\<not> (\<exists>p m. broken_joblib PREPROCESSOR_PATH = Inr p \<and> broken_joblib MODEL_PATH = Inr m)"
    by (simp add: broken_joblib_def)
  from load_resources_flag [of sample_joblib init_globals] ok
  have 1: "RESOURCES_LOADED (load_resources sample_joblib init_globals)" by blast
  with load_resources_flag [of sample_joblib init_globals]
  have 2: "sample_joblib PREPROCESSOR_PATH =
       Inr (preprocessor (load_resources sample_joblib init_globals)) \<and>
     sample_joblib MODEL_PATH = Inr (model (load_resources sample_joblib init_globals))"
    by blast
  then have 3: "model (load_resources sample_joblib init_globals) = Some sample_artifact"
    by (auto simp: sample_joblib_def)
  from load_resources_flag [of broken_joblib init_globals] bad
  have 4: "RESOURCES_LOADED (load_resources broken_joblib init_globals) = False" by blast
  from 1 2 3 4 show ?thesis by simp
qed

end
